theory Spec2Isabelle
  imports Main
begin

section \<open>JavaScript values, as far as \<open>auth.ts\<close> observes them\<close>

text \<open>
  The bodies that \<open>response.json()\<close> yields are untyped at run time (the TypeScript
  interfaces \<open>User\<close>, \<open>LoginResponse\<close> and \<open>RegisterResponse\<close> are erased), so they are
  modelled as dynamic values. A number is held as the text that \<open>String(n)\<close> gives for it
  (\<open>0\<close> and \<open>-0\<close> both give \<open>0\<close>): its truthiness and that text are all the code ever
  observes of a number. An object is an association list read with \<open>map_of\<close>.
  \<open>JUndefined\<close> is the value of a missing property; it never occurs inside parsed JSON.
\<close>

datatype jsval =
    JUndefined
  | JNull
  | JBool bool
  | JNum string
  | JStr string
  | JArr "jsval list"
  | JObj "(string \<times> jsval) list"

text \<open>
  What the code can throw or be handed: \<open>new Error(message)\<close>, the \<open>TypeError\<close> of a
  property read on \<open>null\<close> or \<open>undefined\<close>, the \<open>SyntaxError\<close> of \<open>JSON.parse\<close> and of
  \<open>response.json()\<close>, the \<open>ReferenceError\<close> of naming \<open>localStorage\<close> where it does not
  exist, and the rejection of \<open>fetch\<close> itself.
\<close>

datatype js_error =
    Error string
  | TypeError
  | SyntaxError
  | ReferenceError
  | NetworkError

text \<open>ToBoolean.\<close>

fun truthy :: "jsval \<Rightarrow> bool" where
  "truthy JUndefined = False"
| "truthy JNull = False"
| "truthy (JBool b) = b"
| "truthy (JNum n) = (n \<noteq> ''0'' \<and> n \<noteq> ''NaN'')"
| "truthy (JStr s) = (s \<noteq> [])"
| "truthy (JArr xs) = True"
| "truthy (JObj kvs) = True"

text \<open>ToBoolean of a \<open>string | null\<close>, the type of \<open>localStorage.getItem\<close>.\<close>

fun truthy_str :: "string option \<Rightarrow> bool" where
  "truthy_str None = False"
| "truthy_str (Some s) = (s \<noteq> [])"

fun join_comma :: "string list \<Rightarrow> string" where
  "join_comma [] = []"
| "join_comma [s] = s"
| "join_comma (s # t # ss) = s @ '','' @ join_comma (t # ss)"

text \<open>
  ToString, which \<open>localStorage.setItem\<close> and \<open>new Error\<close> apply to their argument.
  An array is joined with commas, \<open>null\<close> and \<open>undefined\<close> elements giving the empty text.
\<close>

fun js_String :: "jsval \<Rightarrow> string" where
  "js_String JUndefined = ''undefined''"
| "js_String JNull = ''null''"
| "js_String (JBool b) = (if b then ''true'' else ''false'')"
| "js_String (JNum n) = n"
| "js_String (JStr s) = s"
| "js_String (JArr xs) =
     join_comma (map (\<lambda>x. if x = JNull \<or> x = JUndefined then [] else js_String x) xs)"
| "js_String (JObj kvs) = ''[object Object]''"

text \<open>
  The property read \<open>v.name\<close>, for the names the code uses (\<open>access_token\<close>, \<open>tokens\<close>,
  \<open>access\<close>, \<open>refresh\<close>, \<open>refresh_token\<close>, \<open>user\<close>, \<open>detail\<close>, \<open>error\<close>), none of which
  is a built-in property of a string, number, boolean or array.
\<close>

fun js_get :: "jsval \<Rightarrow> string \<Rightarrow> js_error + jsval" where
  "js_get JUndefined name = Inl TypeError"
| "js_get JNull name = Inl TypeError"
| "js_get (JObj kvs) name = (case map_of kvs name of None \<Rightarrow> Inr JUndefined | Some v \<Rightarrow> Inr v)"
| "js_get v name = Inr JUndefined"

text \<open>The optional read \<open>v?.name\<close>.\<close>

definition js_get_opt :: "jsval \<Rightarrow> string \<Rightarrow> jsval" where
  "js_get_opt v name = (case js_get v name of Inl e \<Rightarrow> JUndefined | Inr x \<Rightarrow> x)"

section \<open>The platform: configuration, transport and JSON codec\<close>

text \<open>
  \<open>ENDPOINTS\<close> of \<open>config.ts\<close>: one path for each operation (field \<open>ep_login\<close> is
  \<open>ENDPOINTS.login\<close>, and so on).
\<close>

record endpoints =
  ep_register :: string
  ep_login :: string
  ep_logout :: string
  ep_profile :: string
  ep_changePassword :: string
  ep_deleteAccount :: string
  ep_refreshToken :: string

definition API_ENDPOINTS_django :: endpoints where
  "API_ENDPOINTS_django =
     \<lparr> ep_register = ''/user/api/register/'',
       ep_login = ''/user/api/login/'',
       ep_logout = ''/user/api/logout/'',
       ep_profile = ''/user/api/profile/'',
       ep_changePassword = ''/user/api/change-password/'',
       ep_deleteAccount = ''/user/api/delete-account/'',
       ep_refreshToken = ''/user/api/token/refresh/'' \<rparr>"

definition API_ENDPOINTS_fastapi :: endpoints where
  "API_ENDPOINTS_fastapi =
     \<lparr> ep_register = ''/api/register/'',
       ep_login = ''/api/login/'',
       ep_logout = ''/api/logout/'',
       ep_profile = ''/api/profile/'',
       ep_changePassword = ''/api/change-password/'',
       ep_deleteAccount = ''/api/delete-account/'',
       ep_refreshToken = ''/api/token/refresh/'' \<rparr>"

text \<open>The second argument of \<open>fetch\<close>, with the URL.\<close>

record request =
  url :: string
  "method" :: string
  headers :: "(string \<times> string) list"
  body :: "string option"

text \<open>
  A \<open>Response\<close>: its status and what \<open>await response.json()\<close> gives, which throws when the
  body is not JSON.
\<close>

record response =
  status :: nat
  json :: "js_error + jsval"

text \<open>\<open>response.ok\<close>: the status is in the range 200 to 299.\<close>

definition ok :: "response \<Rightarrow> bool" where
  "ok r = (200 \<le> status r \<and> status r \<le> 299)"

text \<open>
  What the code takes from outside the repository. \<open>API_BASE_URL\<close> and \<open>ENDPOINTS\<close> are
  resolved from the process environment by \<open>config.ts\<close>. The transport answers a request
  in the light of all requests sent before it: with a response, or by rejecting.
  \<open>JSON.stringify\<close> and \<open>JSON.parse\<close> are the platform's.
\<close>

record platform =
  API_BASE_URL :: string
  ENDPOINTS :: endpoints
  transport :: "request list \<Rightarrow> request \<Rightarrow> js_error + response"
  stringify :: "jsval \<Rightarrow> string"
  parse :: "string \<Rightarrow> js_error + jsval"

section \<open>The world the service acts on\<close>

text \<open>
  \<open>localStorage\<close> is \<open>None\<close> where \<open>typeof window === 'undefined'\<close> (no browser, so no
  \<open>localStorage\<close> either), and otherwise the stored texts by key. \<open>sent\<close> are the requests
  handed to \<open>fetch\<close> so far, \<open>console\<close> the calls of \<open>console.error\<close>. In a browser
  the storage is taken to be accessible and to have room: no call of \<open>localStorage\<close>
  fails there.
\<close>

record world =
  localStorage :: "(string \<rightharpoonup> string) option"
  sent :: "request list"
  console :: "(string \<times> js_error) list"

type_synonym 'a outcome = "(js_error + 'a) \<times> world"

definition fetch :: "platform \<Rightarrow> request \<Rightarrow> world \<Rightarrow> response outcome" where
  "fetch P req w = (transport P (sent w) req, w\<lparr>sent := sent w @ [req]\<rparr>)"

definition console_error :: "string \<Rightarrow> js_error \<Rightarrow> world \<Rightarrow> world" where
  "console_error label e w = w\<lparr>console := console w @ [(label, e)]\<rparr>"

text \<open>
  \<open>localStorage.setItem(key, value)\<close>, unguarded: naming \<open>localStorage\<close> where there is
  none throws.
\<close>

definition localStorage_setItem :: "string \<Rightarrow> jsval \<Rightarrow> world \<Rightarrow> unit outcome" where
  "localStorage_setItem key v w =
     (case localStorage w of
        None \<Rightarrow> (Inl ReferenceError, w)
      | Some st \<Rightarrow> (Inr (), w\<lparr>localStorage := Some (st(key \<mapsto> js_String v))\<rparr>))"

subsection \<open>Token management\<close>

definition getAccessToken :: "world \<Rightarrow> string option" where
  "getAccessToken w =
     (case localStorage w of None \<Rightarrow> None | Some st \<Rightarrow> st ''access_token'')"

definition getRefreshToken :: "world \<Rightarrow> string option" where
  "getRefreshToken w =
     (case localStorage w of None \<Rightarrow> None | Some st \<Rightarrow> st ''refresh_token'')"

definition setTokens :: "jsval \<Rightarrow> jsval \<Rightarrow> world \<Rightarrow> world" where
  "setTokens accessToken refreshToken w =
     (case localStorage w of
        None \<Rightarrow> w
      | Some st \<Rightarrow>
          w\<lparr>localStorage :=
              Some (st(''access_token'' \<mapsto> js_String accessToken,
                       ''refresh_token'' \<mapsto> js_String refreshToken))\<rparr>)"

definition clearTokens :: "world \<Rightarrow> world" where
  "clearTokens w =
     (case localStorage w of
        None \<Rightarrow> w
      | Some st \<Rightarrow>
          w\<lparr>localStorage :=
              Some (st(''access_token'' := None, ''refresh_token'' := None,
                       ''user'' := None))\<rparr>)"

text \<open>
  \<open>JSON.stringify(undefined)\<close> is \<open>undefined\<close>, which \<open>setItem\<close> stores as the text
  \<open>undefined\<close>.
\<close>

definition setUser :: "platform \<Rightarrow> jsval \<Rightarrow> world \<Rightarrow> world" where
  "setUser P user w =
     (case localStorage w of
        None \<Rightarrow> w
      | Some st \<Rightarrow>
          w\<lparr>localStorage :=
              Some (st(''user'' \<mapsto>
                (if user = JUndefined then ''undefined'' else stringify P user)))\<rparr>)"

definition getUser :: "platform \<Rightarrow> world \<Rightarrow> js_error + jsval" where
  "getUser P w =
     (case localStorage w of
        None \<Rightarrow> Inr JNull
      | Some st \<Rightarrow>
          (case st ''user'' of
             None \<Rightarrow> Inr JNull
           | Some userStr \<Rightarrow> if userStr \<noteq> [] then parse P userStr else Inr JNull))"

definition isAuthenticated :: "world \<Rightarrow> bool" where
  "isAuthenticated w = truthy_str (getAccessToken w)"

definition getHeaders :: "bool \<Rightarrow> world \<Rightarrow> (string \<times> string) list" where
  "getHeaders includeAuth w =
     (let headers = [(''Content-Type'', ''application/json'')] in
      if includeAuth then
        (case getAccessToken w of
           None \<Rightarrow> headers
         | Some token \<Rightarrow>
             if token \<noteq> [] then headers @ [(''Authorization'', ''Bearer '' @ token)]
             else headers)
      else headers)"

subsection \<open>API calls\<close>

text \<open>
  The error of \<open>throw new Error(error.detail || error.error || fallback)\<close>; reading a
  property of a \<open>null\<close> body throws the \<open>TypeError\<close> instead.
\<close>

definition new_Error :: "jsval \<Rightarrow> string \<Rightarrow> js_error" where
  "new_Error error fallback =
     (case js_get error ''detail'' of
        Inl e \<Rightarrow> e
      | Inr detail \<Rightarrow>
          if truthy detail then Error (js_String detail)
          else (case js_get error ''error'' of
                  Inl e \<Rightarrow> e
                | Inr err \<Rightarrow>
                    if truthy err then Error (js_String err) else Error fallback))"

text \<open>
  The branch \<open>if (!response.ok) { const error = await response.json(); throw ... }\<close>
  shared by \<open>login\<close>, \<open>register\<close>, \<open>updateProfile\<close>, \<open>changePassword\<close> and
  \<open>deleteAccount\<close>.
\<close>

definition not_ok_error :: "response \<Rightarrow> string \<Rightarrow> js_error" where
  "not_ok_error response fallback =
     (case json response of Inl e \<Rightarrow> e | Inr error \<Rightarrow> new_Error error fallback)"

definition js_optional :: "string option \<Rightarrow> jsval" where
  "js_optional x = (case x of None \<Rightarrow> JUndefined | Some s \<Rightarrow> JStr s)"

text \<open>
  The requests, one for each call of \<open>fetch\<close> in the file: URL, method, headers and body
  as written there.
\<close>

definition login_request :: "platform \<Rightarrow> string \<Rightarrow> string \<Rightarrow> world \<Rightarrow> request" where
  "login_request P username password w =
     \<lparr> url = API_BASE_URL P @ ep_login (ENDPOINTS P),
       method = ''POST'',
       headers = getHeaders False w,
       body = Some (stringify P
                (JObj [(''username'', JStr username), (''password'', JStr password)])) \<rparr>"

definition register_request ::
  "platform \<Rightarrow> string \<Rightarrow> string \<Rightarrow> string \<Rightarrow> string \<Rightarrow> string option \<Rightarrow> string option \<Rightarrow>
   world \<Rightarrow> request" where
  "register_request P username email password password2 first_name last_name w =
     \<lparr> url = API_BASE_URL P @ ep_register (ENDPOINTS P),
       method = ''POST'',
       headers = getHeaders False w,
       body = Some (stringify P
                (JObj [(''username'', JStr username), (''email'', JStr email),
                       (''password'', JStr password), (''password2'', JStr password2),
                       (''first_name'', js_optional first_name),
                       (''last_name'', js_optional last_name)])) \<rparr>"

definition logout_request :: "platform \<Rightarrow> string \<Rightarrow> world \<Rightarrow> request" where
  "logout_request P token w =
     \<lparr> url = API_BASE_URL P @ ep_logout (ENDPOINTS P),
       method = ''POST'',
       headers = getHeaders True w,
       body = Some (stringify P (JObj [(''refresh_token'', JStr token)])) \<rparr>"

definition refreshAccessToken_request :: "platform \<Rightarrow> string \<Rightarrow> world \<Rightarrow> request" where
  "refreshAccessToken_request P refreshToken w =
     \<lparr> url = API_BASE_URL P @ ep_refreshToken (ENDPOINTS P),
       method = ''POST'',
       headers = getHeaders False w,
       body = Some (stringify P (JObj [(''refresh_token'', JStr refreshToken)])) \<rparr>"

definition getProfile_request :: "platform \<Rightarrow> world \<Rightarrow> request" where
  "getProfile_request P w =
     \<lparr> url = API_BASE_URL P @ ep_profile (ENDPOINTS P),
       method = ''GET'',
       headers = getHeaders True w,
       body = None \<rparr>"

definition updateProfile_request :: "platform \<Rightarrow> jsval \<Rightarrow> world \<Rightarrow> request" where
  "updateProfile_request P data w =
     \<lparr> url = API_BASE_URL P @ ep_profile (ENDPOINTS P),
       method = ''PUT'',
       headers = getHeaders True w,
       body = Some (stringify P data) \<rparr>"

definition changePassword_request :: "platform \<Rightarrow> string \<Rightarrow> string \<Rightarrow> string \<Rightarrow> world \<Rightarrow> request" where
  "changePassword_request P oldPassword newPassword newPassword2 w =
     \<lparr> url = API_BASE_URL P @ ep_changePassword (ENDPOINTS P),
       method = ''POST'',
       headers = getHeaders True w,
       body = Some (stringify P
                (JObj [(''old_password'', JStr oldPassword),
                       (''new_password'', JStr newPassword),
                       (''new_password2'', JStr newPassword2)])) \<rparr>"

definition deleteAccount_request :: "platform \<Rightarrow> world \<Rightarrow> request" where
  "deleteAccount_request P w =
     \<lparr> url = API_BASE_URL P @ ep_deleteAccount (ENDPOINTS P),
       method = ''DELETE'',
       headers = getHeaders True w,
       body = None \<rparr>"

definition login :: "platform \<Rightarrow> string \<Rightarrow> string \<Rightarrow> world \<Rightarrow> jsval outcome" where
  "login P username password w =
     (case fetch P (login_request P username password w) w of
        (Inl e, w1) \<Rightarrow> (Inl e, w1)
      | (Inr response, w1) \<Rightarrow>
          if \<not> ok response then (Inl (not_ok_error response ''Login failed''), w1)
          else
            (case json response of
               Inl e \<Rightarrow> (Inl e, w1)
             | Inr data \<Rightarrow>
                 (case js_get data ''tokens'' of
                    Inl e \<Rightarrow> (Inl e, w1)
                  | Inr tokens \<Rightarrow>
                      (case js_get tokens ''access'' of
                         Inl e \<Rightarrow> (Inl e, w1)
                       | Inr access \<Rightarrow>
                           (case js_get tokens ''refresh'' of
                              Inl e \<Rightarrow> (Inl e, w1)
                            | Inr refresh \<Rightarrow>
                                (let w2 = setTokens access refresh w1 in
                                 case js_get data ''user'' of
                                   Inl e \<Rightarrow> (Inl e, w2)
                                 | Inr user \<Rightarrow> (Inr data, setUser P user w2)))))))"

definition register ::
  "platform \<Rightarrow> string \<Rightarrow> string \<Rightarrow> string \<Rightarrow> string \<Rightarrow> string option \<Rightarrow> string option \<Rightarrow>
   world \<Rightarrow> jsval outcome" where
  "register P username email password password2 first_name last_name w =
     (case fetch P (register_request P username email password password2 first_name last_name w) w of
        (Inl e, w1) \<Rightarrow> (Inl e, w1)
      | (Inr response, w1) \<Rightarrow>
          if \<not> ok response then (Inl (not_ok_error response ''Registration failed''), w1)
          else
            (case json response of
               Inl e \<Rightarrow> (Inl e, w1)
             | Inr data \<Rightarrow>
                 (case js_get data ''tokens'' of
                    Inl e \<Rightarrow> (Inl e, w1)
                  | Inr tokens \<Rightarrow>
                      if truthy tokens then
                        (case js_get tokens ''access_token'' of
                           Inl e \<Rightarrow> (Inl e, w1)
                         | Inr access_token \<Rightarrow>
                             (case js_get tokens ''refresh_token'' of
                                Inl e \<Rightarrow> (Inl e, w1)
                              | Inr refresh_token \<Rightarrow>
                                  (let w2 = setTokens access_token refresh_token w1 in
                                   case js_get data ''user'' of
                                     Inl e \<Rightarrow> (Inl e, w2)
                                   | Inr user \<Rightarrow> (Inr data, setUser P user w2))))
                      else (Inr data, w1))))"

text \<open>
  \<open>logout\<close>: the \<open>try\<close> block's outcome is \<open>r\<close>, the \<open>catch\<close> logs a thrown error and
  swallows it, the \<open>finally\<close> clears the store.
\<close>

definition logout :: "platform \<Rightarrow> world \<Rightarrow> unit outcome" where
  "logout P w =
     (let refreshToken = getRefreshToken w;
          (r, w1) =
            (case refreshToken of
               None \<Rightarrow> (Inr (), w)
             | Some token \<Rightarrow>
                 if token \<noteq> [] then
                   (case fetch P (logout_request P token w) w of
                      (Inl e, w') \<Rightarrow> (Inl e, w')
                    | (Inr response, w') \<Rightarrow> (Inr (), w'))
                 else (Inr (), w));
          w2 = (case r of Inl e \<Rightarrow> console_error ''Logout error:'' e w1 | Inr u \<Rightarrow> w1)
      in (Inr (), clearTokens w2))"

text \<open>
  Line 260, \<open>data.access_token || data.tokens?.access_token\<close>: a \<open>null\<close> body throws at
  the first read.
\<close>

definition accessToken_of :: "jsval \<Rightarrow> js_error + jsval" where
  "accessToken_of data =
     (case js_get data ''access_token'' of
        Inl e \<Rightarrow> Inl e
      | Inr direct \<Rightarrow>
          if truthy direct then Inr direct
          else (case js_get data ''tokens'' of
                  Inl e \<Rightarrow> Inl e
                | Inr tokens \<Rightarrow> Inr (js_get_opt tokens ''access_token'')))"

text \<open>The \<open>try\<close> block of \<open>refreshAccessToken\<close>.\<close>

definition refreshAccessToken_try :: "platform \<Rightarrow> string \<Rightarrow> world \<Rightarrow> bool outcome" where
  "refreshAccessToken_try P refreshToken w =
     (case fetch P (refreshAccessToken_request P refreshToken w) w of
        (Inl e, w1) \<Rightarrow> (Inl e, w1)
      | (Inr response, w1) \<Rightarrow>
          if \<not> ok response then (Inr False, w1)
          else
            (case json response of
               Inl e \<Rightarrow> (Inl e, w1)
             | Inr data \<Rightarrow>
                 (case accessToken_of data of
                    Inl e \<Rightarrow> (Inl e, w1)
                  | Inr accessToken \<Rightarrow>
                      if truthy accessToken then
                        (case localStorage_setItem ''access_token'' accessToken w1 of
                           (Inl e, w2) \<Rightarrow> (Inl e, w2)
                         | (Inr u, w2) \<Rightarrow> (Inr True, w2))
                      else (Inr False, w1))))"

definition refreshAccessToken :: "platform \<Rightarrow> world \<Rightarrow> bool outcome" where
  "refreshAccessToken P w =
     (case getRefreshToken w of
        None \<Rightarrow> (Inr False, w)
      | Some refreshToken \<Rightarrow>
          if refreshToken = [] then (Inr False, w)
          else
            (case refreshAccessToken_try P refreshToken w of
               (Inl error, w1) \<Rightarrow> (Inr False, console_error ''Token refresh error:'' error w1)
             | (Inr b, w1) \<Rightarrow> (Inr b, w1)))"

text \<open>
  \<open>getProfile\<close> calls itself after a successful refresh, with nothing that bounds the
  calls, so it is a partial function: \<open>None\<close> is a call that never settles.
\<close>

partial_function (option) getProfile :: "platform \<Rightarrow> world \<Rightarrow> jsval outcome option" where
  "getProfile P w =
     (case fetch P (getProfile_request P w) w of
        (Inl e, w1) \<Rightarrow> Some (Inl e, w1)
      | (Inr response, w1) \<Rightarrow>
          if \<not> ok response then
            (if status response = 401 then
               (case refreshAccessToken P w1 of
                  (Inl e, w2) \<Rightarrow> Some (Inl e, w2)
                | (Inr refreshed, w2) \<Rightarrow>
                    if refreshed then getProfile P w2
                    else Some (Inl (Error ''Session expired''), w2))
             else Some (Inl (Error ''Failed to fetch profile''), w1))
          else
            (case json response of
               Inl e \<Rightarrow> Some (Inl e, w1)
             | Inr user \<Rightarrow> Some (Inr user, setUser P user w1)))"

declare getProfile.simps [code]

definition updateProfile :: "platform \<Rightarrow> jsval \<Rightarrow> world \<Rightarrow> jsval outcome" where
  "updateProfile P data w =
     (case fetch P (updateProfile_request P data w) w of
        (Inl e, w1) \<Rightarrow> (Inl e, w1)
      | (Inr response, w1) \<Rightarrow>
          if \<not> ok response then (Inl (not_ok_error response ''Update failed''), w1)
          else
            (case json response of
               Inl e \<Rightarrow> (Inl e, w1)
             | Inr user \<Rightarrow> (Inr user, setUser P user w1)))"

definition changePassword ::
  "platform \<Rightarrow> string \<Rightarrow> string \<Rightarrow> string \<Rightarrow> world \<Rightarrow> unit outcome" where
  "changePassword P oldPassword newPassword newPassword2 w =
     (case fetch P (changePassword_request P oldPassword newPassword newPassword2 w) w of
        (Inl e, w1) \<Rightarrow> (Inl e, w1)
      | (Inr response, w1) \<Rightarrow>
          if \<not> ok response then (Inl (not_ok_error response ''Password change failed''), w1)
          else (Inr (), w1))"

definition deleteAccount :: "platform \<Rightarrow> world \<Rightarrow> unit outcome" where
  "deleteAccount P w =
     (case fetch P (deleteAccount_request P w) w of
        (Inl e, w1) \<Rightarrow> (Inl e, w1)
      | (Inr response, w1) \<Rightarrow>
          if \<not> ok response then (Inl (not_ok_error response ''Account deletion failed''), w1)
          else (Inr (), clearTokens w1))"

section \<open>Notions the properties are stated with\<close>

text \<open>
  What a guarded getter reads from a slot: \<open>localStorage.getItem(key)\<close>, and absent where
  there is no \<open>window\<close>.
\<close>

definition getItem :: "world \<Rightarrow> string \<Rightarrow> string option" where
  "getItem w key = (case localStorage w of None \<Rightarrow> None | Some st \<Rightarrow> st key)"

text \<open>
  One refresh-and-retry cycle of \<open>getProfile\<close>, seen from outside: the profile request
  is answered 401 and the refresh that follows returns \<open>true\<close>. \<open>refresh_cycle\<close> is the
  world after the two calls, from which the retry starts. In a failed cycle the refresh
  returns \<open>false\<close> instead.
\<close>

definition refresh_cycle :: "platform \<Rightarrow> world \<Rightarrow> world" where
  "refresh_cycle P w =
     snd (refreshAccessToken P (snd (fetch P (getProfile_request P w) w)))"

definition refresh_cycle_ok :: "platform \<Rightarrow> world \<Rightarrow> bool" where
  "refresh_cycle_ok P w =
     (case fetch P (getProfile_request P w) w of
        (Inl e, w1) \<Rightarrow> False
      | (Inr response, w1) \<Rightarrow>
          status response = 401 \<and> fst (refreshAccessToken P w1) = Inr True)"

definition refresh_cycle_fails :: "platform \<Rightarrow> world \<Rightarrow> bool" where
  "refresh_cycle_fails P w =
     (case fetch P (getProfile_request P w) w of
        (Inl e, w1) \<Rightarrow> False
      | (Inr response, w1) \<Rightarrow>
          status response = 401 \<and> fst (refreshAccessToken P w1) = Inr False)"

fun iterate :: "nat \<Rightarrow> ('a \<Rightarrow> 'a) \<Rightarrow> 'a \<Rightarrow> 'a" where
  "iterate 0 f x = x"
| "iterate (Suc n) f x = iterate n f (f x)"

text \<open>
  The first \<open>n\<close> cycles all succeed. (Recursion rather than a quantifier, so that it
  computes.)
\<close>

fun refresh_cycles_ok :: "nat \<Rightarrow> platform \<Rightarrow> world \<Rightarrow> bool" where
  "refresh_cycles_ok 0 P w = True"
| "refresh_cycles_ok (Suc n) P w =
     (refresh_cycle_ok P w \<and> refresh_cycles_ok n P (refresh_cycle P w))"

text \<open>
  The two shapes of a refresh body in the words of the specification: \<open>{access_token}\<close>
  and \<open>{tokens: {access_token}}\<close>, each possibly with further fields, but not with the
  other shape's field.
\<close>

definition shape_direct :: "jsval \<Rightarrow> jsval \<Rightarrow> bool" where
  "shape_direct data v =
     (case data of
        JObj kvs \<Rightarrow> map_of kvs ''access_token'' = Some v \<and> map_of kvs ''tokens'' = None
      | _ \<Rightarrow> False)"

definition shape_nested :: "jsval \<Rightarrow> jsval \<Rightarrow> bool" where
  "shape_nested data v =
     (case data of
        JObj kvs \<Rightarrow>
          map_of kvs ''access_token'' = None \<and>
          (case map_of kvs ''tokens'' of
             Some (JObj tkvs) \<Rightarrow> map_of tkvs ''access_token'' = Some v
           | _ \<Rightarrow> False)
      | _ \<Rightarrow> False)"

text \<open>
  The access token that lines 259 to 262 take from a response: none when the body is no
  JSON, when the read throws, or when the value read is falsy.
\<close>

definition extracted_accessToken :: "response \<Rightarrow> jsval option" where
  "extracted_accessToken response =
     (case json response of
        Inl e \<Rightarrow> None
      | Inr data \<Rightarrow>
          (case accessToken_of data of
             Inl e \<Rightarrow> None
           | Inr accessToken \<Rightarrow> if truthy accessToken then Some accessToken else None))"

section \<open>A concrete platform and worlds, for the examples\<close>

definition alice :: jsval where
  "alice =
     JObj [(''id'', JNum ''1''), (''username'', JStr ''alice''),
           (''email'', JStr ''alice@example.com''), (''is_active'', JBool True),
           (''is_staff'', JBool False), (''is_superuser'', JBool False),
           (''date_joined'', JStr ''2024-01-01'')]"

text \<open>
  A stand-in for the platform's codec on the texts of the examples: \<open>alice_text\<close> is what
  \<open>JSON.stringify\<close> makes of \<open>alice\<close>, and \<open>JSON.parse\<close> reads it back; \<open>null\<close> is JSON for
  \<open>null\<close>; \<open>not json\<close> is no JSON. The examples store and parse no other text, and
  look at no request body.
\<close>

definition alice_text :: string where
  \<open>alice_text =
     ''{"id":1,"username":"alice","email":"alice@example.com","is_active":true,'' @
     ''"is_staff":false,"is_superuser":false,"date_joined":"2024-01-01"}''\<close>

definition example_stringify :: "jsval \<Rightarrow> string" where
  "example_stringify v = (if v = alice then alice_text else if v = JNull then ''null'' else ''{}'')"

definition example_parse :: "string \<Rightarrow> js_error + jsval" where
  "example_parse s =
     (if s = alice_text then Inr alice
      else if s = ''null'' then Inr JNull
      else Inl SyntaxError)"

text \<open>
  A transport that answers the \<open>n\<close>-th request with the \<open>n\<close>-th entry of a script and
  rejects every request after the script's end.
\<close>

definition scripted ::
  "(js_error + response) list \<Rightarrow> request list \<Rightarrow> request \<Rightarrow> js_error + response" where
  "scripted script history req =
     (if length history < length script then script ! length history else Inl NetworkError)"

definition example_platform :: "(js_error + response) list \<Rightarrow> platform" where
  "example_platform script =
     \<lparr> API_BASE_URL = ''http://localhost:9000'',
       ENDPOINTS = API_ENDPOINTS_fastapi,
       transport = scripted script,
       stringify = example_stringify,
       parse = example_parse \<rparr>"

definition browser :: "(string \<times> string) list \<Rightarrow> world" where
  "browser slots = \<lparr> localStorage = Some (map_of slots), sent = [], console = [] \<rparr>"

definition server_side :: world where
  "server_side = \<lparr> localStorage = None, sent = [], console = [] \<rparr>"

definition answer :: "nat \<Rightarrow> jsval \<Rightarrow> js_error + response" where
  "answer code data = Inr \<lparr> status = code, json = Inr data \<rparr>"

text \<open>
  A session in a browser; a script of two 401 answers, each followed by a successful
  refresh, and then the profile; and a transport that answers every \<open>GET\<close> with 401 and
  every other request with a fresh token.
\<close>

definition session :: world where
  "session = browser [(''access_token'', ''A1''), (''refresh_token'', ''R1'')]"

definition two_cycles :: "(js_error + response) list" where
  "two_cycles =
     [answer 401 JNull, answer 200 (JObj [(''access_token'', JStr ''A2'')]),
      answer 401 JNull, answer 200 (JObj [(''access_token'', JStr ''A3'')]),
      answer 200 alice]"

definition always_401 :: "request list \<Rightarrow> request \<Rightarrow> js_error + response" where
  "always_401 history req =
     (if method req = ''GET'' then answer 401 JNull
      else answer 200 (JObj [(''access_token'', JStr ''A2'')]))"

text \<open>
  The login answer of the specification's scenario, and the two kinds of answer to a
  registration: with tokens, and without (verification pending).
\<close>

definition login_ok :: "(js_error + response) list" where
  "login_ok =
     [answer 200 (JObj [(''message'', JStr ''ok''), (''user'', alice),
                        (''tokens'', JObj [(''access'', JStr ''A1''), (''refresh'', JStr ''R1'')])])]"

definition register_with_tokens :: "(js_error + response) list" where
  "register_with_tokens =
     [answer 201 (JObj [(''message'', JStr ''ok''), (''user'', alice),
                        (''tokens'', JObj [(''access_token'', JStr ''A1''),
                                           (''refresh_token'', JStr ''R1''),
                                           (''token_type'', JStr ''bearer'')])])]"

definition register_pending :: "(js_error + response) list" where
  "register_pending = [answer 201 (JObj [(''message'', JStr ''verify''), (''user'', alice)])]"

section \<open>Facts about the store and the transport\<close>

text \<open>The definitions to unfold when an example is evaluated.\<close>

lemmas example_defs =
  example_platform_def browser_def server_side_def session_def scripted_def answer_def
  two_cycles_def API_ENDPOINTS_fastapi_def

lemmas refresh_defs =
  fetch_def getHeaders_def getAccessToken_def getRefreshToken_def ok_def
  refreshAccessToken_def refreshAccessToken_try_def refreshAccessToken_request_def
  accessToken_of_def js_get_opt_def localStorage_setItem_def console_error_def

lemma getItem_clearTokens:
  "getItem (clearTokens w) key =
     (if key = ''access_token'' \<or> key = ''refresh_token'' \<or> key = ''user'' then None
      else getItem w key)"
  by (simp add: getItem_def clearTokens_def split: option.splits)

lemma getItem_sent [simp]: "getItem (w\<lparr>sent := x\<rparr>) key = getItem w key"
  by (simp add: getItem_def)

lemma getItem_console_error [simp]: "getItem (console_error l e w) key = getItem w key"
  by (simp add: getItem_def console_error_def)

lemma getItem_setTokens:
  "localStorage w = Some st \<Longrightarrow>
   getItem (setTokens a r w) key =
     (if key = ''refresh_token'' then Some (js_String r)
      else if key = ''access_token'' then Some (js_String a) else getItem w key)"
  by (simp add: getItem_def setTokens_def)

lemma getItem_setUser:
  "localStorage w = Some st \<Longrightarrow>
   getItem (setUser P user w) key =
     (if key = ''user'' then Some (if user = JUndefined then ''undefined'' else stringify P user)
      else getItem w key)"
  by (simp add: getItem_def setUser_def)

lemma getUser_getItem:
  "getUser P w =
     (case getItem w ''user'' of
        None \<Rightarrow> Inr JNull
      | Some userStr \<Rightarrow> if userStr \<noteq> [] then parse P userStr else Inr JNull)"
  by (simp add: getUser_def getItem_def split: option.splits)

lemma getAccessToken_getItem: "getAccessToken w = getItem w ''access_token''"
  by (simp add: getAccessToken_def getItem_def)

lemma getRefreshToken_getItem: "getRefreshToken w = getItem w ''refresh_token''"
  by (simp add: getRefreshToken_def getItem_def)

lemma js_get_defined:
  "v \<noteq> JNull \<Longrightarrow> v \<noteq> JUndefined \<Longrightarrow> js_get v name = Inr (js_get_opt v name)"
  by (cases v) (simp_all add: js_get_opt_def split: option.splits)

section \<open>logout\<close>

text \<open>
  C2. Every execution of \<open>logout\<close>, whatever the store holds and whatever the transport
  does with the notification (a response of any status, or a rejection), completes
  normally and leaves the access-token, refresh-token and identity slots empty.
\<close>

theorem logout_clears_store:
  "fst (logout P w) = Inr () \<and>
   getItem (snd (logout P w)) ''access_token'' = None \<and>
   getItem (snd (logout P w)) ''refresh_token'' = None \<and>
   getItem (snd (logout P w)) ''user'' = None"
  by (simp add: logout_def Let_def getItem_clearTokens split: prod.splits)

text \<open>
  An instance: a browser holding a session, and a transport that rejects the
  notification.
\<close>

theorem logout_clears_store_witness:
  "fst (logout (example_platform [Inl NetworkError])
          (browser [(''access_token'', ''A1''), (''refresh_token'', ''R1''),
                    (''user'', alice_text)])) = Inr () \<and>
   getItem (snd (logout (example_platform [Inl NetworkError])
          (browser [(''access_token'', ''A1''), (''refresh_token'', ''R1''),
                    (''user'', alice_text)]))) ''user'' = None"
  using logout_clears_store [of "example_platform [Inl NetworkError]"
      "browser [(''access_token'', ''A1''), (''refresh_token'', ''R1''), (''user'', alice_text)]"]
  by simp

section \<open>refreshAccessToken\<close>

lemma refreshAccessToken_absent:
  "\<not> truthy_str (getRefreshToken w) \<Longrightarrow> refreshAccessToken P w = (Inr False, w)"
  by (cases "getRefreshToken w") (simp_all add: refreshAccessToken_def)

lemma refreshAccessToken_returns: "\<exists>b. fst (refreshAccessToken P w) = Inr b"
  by (auto simp: refreshAccessToken_def split: option.splits prod.splits sum.splits)

lemma refreshAccessToken_rejected:
  assumes "getRefreshToken w = Some rt" "rt \<noteq> []"
    and "transport P (sent w) (refreshAccessToken_request P rt w) = Inl e"
  shows "refreshAccessToken P w =
           (Inr False, console_error ''Token refresh error:'' e
              (w\<lparr>sent := sent w @ [refreshAccessToken_request P rt w]\<rparr>))"
  using assms by (simp add: refreshAccessToken_def refreshAccessToken_try_def fetch_def)

lemma refreshAccessToken_not_ok:
  assumes "getRefreshToken w = Some rt" "rt \<noteq> []"
    and "transport P (sent w) (refreshAccessToken_request P rt w) = Inr response"
    and "\<not> ok response"
  shows "refreshAccessToken P w =
           (Inr False, w\<lparr>sent := sent w @ [refreshAccessToken_request P rt w]\<rparr>)"
  using assms by (simp add: refreshAccessToken_def refreshAccessToken_try_def fetch_def)

lemma refreshAccessToken_unusable:
  assumes "getRefreshToken w = Some rt" "rt \<noteq> []"
    and "transport P (sent w) (refreshAccessToken_request P rt w) = Inr response"
    and "ok response" "extracted_accessToken response = None"
  shows "fst (refreshAccessToken P w) = Inr False"
  using assms
  by (simp add: refreshAccessToken_def refreshAccessToken_try_def fetch_def
      extracted_accessToken_def split: sum.splits if_splits)

lemma refreshAccessToken_stored:
  assumes "getRefreshToken w = Some rt" "rt \<noteq> []"
    and "transport P (sent w) (refreshAccessToken_request P rt w) = Inr response"
    and "ok response" "extracted_accessToken response = Some v"
  shows "\<exists>st. localStorage w = Some st \<and>
           refreshAccessToken P w =
             (Inr True, w\<lparr>sent := sent w @ [refreshAccessToken_request P rt w],
                          localStorage := Some (st(''access_token'' \<mapsto> js_String v))\<rparr>)"
  using assms
  by (auto simp: refreshAccessToken_def refreshAccessToken_try_def fetch_def
      extracted_accessToken_def getRefreshToken_def localStorage_setItem_def
      split: sum.splits if_splits option.splits)

lemma refreshAccessToken_True_only:
  assumes "fst (refreshAccessToken P w) = Inr True"
  shows "\<exists>rt response v. getRefreshToken w = Some rt \<and> rt \<noteq> [] \<and>
           transport P (sent w) (refreshAccessToken_request P rt w) = Inr response \<and>
           ok response \<and> extracted_accessToken response = Some v"
proof (cases "getRefreshToken w")
  case None
  with assms show ?thesis by (simp add: refreshAccessToken_def)
next
  case (Some rt)
  show ?thesis
  proof (cases "rt = []")
    case True
    with Some assms show ?thesis by (simp add: refreshAccessToken_def)
  next
    case False
    show ?thesis
    proof (cases "transport P (sent w) (refreshAccessToken_request P rt w)")
      case (Inl e)
      with assms show ?thesis
        using refreshAccessToken_rejected [OF Some False Inl] by simp
    next
      case (Inr response)
      show ?thesis
      proof (cases "ok response")
        case False
        with assms show ?thesis
          using refreshAccessToken_not_ok [OF Some \<open>rt \<noteq> []\<close> Inr] by simp
      next
        case True
        show ?thesis
        proof (cases "extracted_accessToken response")
          case None
          with assms show ?thesis
            using refreshAccessToken_unusable [OF Some \<open>rt \<noteq> []\<close> Inr True] by simp
        next
          case (Some v)
          with \<open>getRefreshToken w = Some rt\<close> \<open>rt \<noteq> []\<close> Inr True show ?thesis by blast
        qed
      qed
    qed
  qed
qed

text \<open>
  C3. \<open>refreshAccessToken\<close> never throws: it always returns a boolean. It returns
  \<open>false\<close>, leaving the world as it was (no request is sent), when the stored refresh
  token is absent or empty; it returns \<open>false\<close> when the transport rejects, when the
  response is not a success, and when no access token can be taken from a success
  response. It returns \<open>true\<close> exactly when an access token was taken from a success
  response, and then it is that token which the access-token slot holds.
\<close>

theorem refreshAccessToken_outcomes:
  "(\<exists>b. fst (refreshAccessToken P w) = Inr b) \<and>
   (\<not> truthy_str (getRefreshToken w) \<longrightarrow> refreshAccessToken P w = (Inr False, w)) \<and>
   (\<forall>rt. getRefreshToken w = Some rt \<and> rt \<noteq> [] \<longrightarrow>
      (\<forall>e. transport P (sent w) (refreshAccessToken_request P rt w) = Inl e \<longrightarrow>
           fst (refreshAccessToken P w) = Inr False) \<and>
      (\<forall>response. transport P (sent w) (refreshAccessToken_request P rt w) = Inr response \<longrightarrow>
           (\<not> ok response \<longrightarrow> fst (refreshAccessToken P w) = Inr False) \<and>
           (ok response \<and> extracted_accessToken response = None \<longrightarrow>
              fst (refreshAccessToken P w) = Inr False) \<and>
           (\<forall>v. ok response \<and> extracted_accessToken response = Some v \<longrightarrow>
              fst (refreshAccessToken P w) = Inr True \<and>
              getItem (snd (refreshAccessToken P w)) ''access_token'' = Some (js_String v)))) \<and>
   (fst (refreshAccessToken P w) = Inr True \<longrightarrow>
      (\<exists>rt response v. getRefreshToken w = Some rt \<and> rt \<noteq> [] \<and>
         transport P (sent w) (refreshAccessToken_request P rt w) = Inr response \<and>
         ok response \<and> extracted_accessToken response = Some v \<and>
         getItem (snd (refreshAccessToken P w)) ''access_token'' = Some (js_String v)))"
proof (intro conjI allI impI; (elim conjE)?)
  show "\<exists>b. fst (refreshAccessToken P w) = Inr b"
    by (rule refreshAccessToken_returns)
next
  assume "\<not> truthy_str (getRefreshToken w)"
  then show "refreshAccessToken P w = (Inr False, w)"
    by (rule refreshAccessToken_absent)
next
  fix rt e
  assume "getRefreshToken w = Some rt" "rt \<noteq> []"
    "transport P (sent w) (refreshAccessToken_request P rt w) = Inl e"
  then show "fst (refreshAccessToken P w) = Inr False"
    by (simp add: refreshAccessToken_rejected)
next
  fix rt response
  assume "getRefreshToken w = Some rt" "rt \<noteq> []"
    "transport P (sent w) (refreshAccessToken_request P rt w) = Inr response" "\<not> ok response"
  then show "fst (refreshAccessToken P w) = Inr False"
    by (simp add: refreshAccessToken_not_ok)
next
  fix rt response
  assume "getRefreshToken w = Some rt" "rt \<noteq> []"
    "transport P (sent w) (refreshAccessToken_request P rt w) = Inr response"
    "ok response" "extracted_accessToken response = None"
  then show "fst (refreshAccessToken P w) = Inr False"
    by (rule refreshAccessToken_unusable)
next
  fix rt response v
  assume a: "getRefreshToken w = Some rt" "rt \<noteq> []"
    "transport P (sent w) (refreshAccessToken_request P rt w) = Inr response"
    "ok response" "extracted_accessToken response = Some v"
  from refreshAccessToken_stored [OF a]
  show "fst (refreshAccessToken P w) = Inr True"
    and "getItem (snd (refreshAccessToken P w)) ''access_token'' = Some (js_String v)"
    by (auto simp: getItem_def)
next
  assume t: "fst (refreshAccessToken P w) = Inr True"
  from refreshAccessToken_True_only [OF t] obtain rt response v where a:
    "getRefreshToken w = Some rt" "rt \<noteq> []"
    "transport P (sent w) (refreshAccessToken_request P rt w) = Inr response"
    "ok response" "extracted_accessToken response = Some v"
    by blast
  from refreshAccessToken_stored [OF a]
  have "getItem (snd (refreshAccessToken P w)) ''access_token'' = Some (js_String v)"
    by (auto simp: getItem_def)
  with a show "\<exists>rt response v. getRefreshToken w = Some rt \<and> rt \<noteq> [] \<and>
         transport P (sent w) (refreshAccessToken_request P rt w) = Inr response \<and>
         ok response \<and> extracted_accessToken response = Some v \<and>
         getItem (snd (refreshAccessToken P w)) ''access_token'' = Some (js_String v)"
    by blast
qed

text \<open>
  Instances: a token in the direct shape is stored; with no refresh token nothing
  happens; a 500, a rejection and a body without a token each give \<open>false\<close>.
\<close>

theorem refreshAccessToken_outcomes_witness:
  "fst (refreshAccessToken
          (example_platform [answer 200 (JObj [(''access_token'', JStr ''A2'')])])
          (browser [(''access_token'', ''A1''), (''refresh_token'', ''R1'')])) = Inr True \<and>
   getItem (snd (refreshAccessToken
          (example_platform [answer 200 (JObj [(''access_token'', JStr ''A2'')])])
          (browser [(''access_token'', ''A1''), (''refresh_token'', ''R1'')])))
     ''access_token'' = Some ''A2'' \<and>
   refreshAccessToken (example_platform []) (browser []) = (Inr False, browser []) \<and>
   fst (refreshAccessToken (example_platform [answer 500 JNull])
          (browser [(''refresh_token'', ''R1'')])) = Inr False \<and>
   fst (refreshAccessToken (example_platform [])
          (browser [(''refresh_token'', ''R1'')])) = Inr False \<and>
   fst (refreshAccessToken (example_platform [answer 200 (JObj [])])
          (browser [(''refresh_token'', ''R1'')])) = Inr False"
  using
    refreshAccessToken_outcomes [of
      "example_platform [answer 200 (JObj [(''access_token'', JStr ''A2'')])]"
      "browser [(''access_token'', ''A1''), (''refresh_token'', ''R1'')]"]
    refreshAccessToken_outcomes [of "example_platform []" "browser []"]
    refreshAccessToken_outcomes [of "example_platform [answer 500 JNull]"
      "browser [(''refresh_token'', ''R1'')]"]
    refreshAccessToken_outcomes [of "example_platform []" "browser [(''refresh_token'', ''R1'')]"]
    refreshAccessToken_outcomes [of "example_platform [answer 200 (JObj [])]"
      "browser [(''refresh_token'', ''R1'')]"]
  by (simp add: example_platform_def browser_def scripted_def answer_def getRefreshToken_def
      ok_def extracted_accessToken_def accessToken_of_def js_get_opt_def)

lemma refreshAccessToken_other_slots:
  "key \<noteq> ''access_token'' \<Longrightarrow> getItem (snd (refreshAccessToken P w)) key = getItem w key"
  by (auto simp: refreshAccessToken_def refreshAccessToken_try_def fetch_def
      localStorage_setItem_def getItem_def console_error_def
      split: option.splits sum.splits prod.splits if_splits)

text \<open>
  C7. \<open>refreshAccessToken\<close> writes no slot but the access token's: after every
  execution, successful ones among them, the stored refresh token, the stored identity
  and every other key read as before, for every prior store and every response.
\<close>

theorem refreshAccessToken_writes_access_only:
  "getRefreshToken (snd (refreshAccessToken P w)) = getRefreshToken w \<and>
   getItem (snd (refreshAccessToken P w)) ''user'' = getItem w ''user'' \<and>
   getUser P (snd (refreshAccessToken P w)) = getUser P w \<and>
   (\<forall>key. key \<noteq> ''access_token'' \<longrightarrow>
      getItem (snd (refreshAccessToken P w)) key = getItem w key)"
proof -
  have slots: "\<And>key. key \<noteq> ''access_token'' \<Longrightarrow>
      getItem (snd (refreshAccessToken P w)) key = getItem w key"
    by (rule refreshAccessToken_other_slots)
  have refresh: "getRefreshToken w' = getItem w' ''refresh_token''" for w'
    by (simp add: getRefreshToken_def getItem_def)
  have none: "localStorage (snd (refreshAccessToken P w)) = None \<longleftrightarrow> localStorage w = None"
    by (auto simp: refreshAccessToken_def refreshAccessToken_try_def fetch_def
      localStorage_setItem_def console_error_def
      split: option.splits sum.splits prod.splits if_splits)
  have user: "getUser P w' =
      (if localStorage w' = None then Inr JNull
       else case getItem w' ''user'' of None \<Rightarrow> Inr JNull
            | Some userStr \<Rightarrow> if userStr \<noteq> [] then parse P userStr else Inr JNull)" for w'
    by (simp add: getUser_def getItem_def split: option.splits)
  show ?thesis
    using slots [of "''user''"] slots [of "''refresh_token''"] slots
    by (simp add: refresh user [of w] user [of "snd (refreshAccessToken P w)"] none)
qed

text \<open>An instance: a successful refresh over a full session.\<close>

theorem refreshAccessToken_writes_access_only_witness:
  "fst (refreshAccessToken
          (example_platform [answer 200 (JObj [(''tokens'', JObj [(''access_token'', JStr ''A2'')])])])
          (browser [(''access_token'', ''A1''), (''refresh_token'', ''R1''),
                    (''user'', alice_text)])) = Inr True \<and>
   getRefreshToken (snd (refreshAccessToken
          (example_platform [answer 200 (JObj [(''tokens'', JObj [(''access_token'', JStr ''A2'')])])])
          (browser [(''access_token'', ''A1''), (''refresh_token'', ''R1''),
                    (''user'', alice_text)]))) = Some ''R1'' \<and>
   getItem (snd (refreshAccessToken
          (example_platform [answer 200 (JObj [(''tokens'', JObj [(''access_token'', JStr ''A2'')])])])
          (browser [(''access_token'', ''A1''), (''refresh_token'', ''R1''),
                    (''user'', alice_text)]))) ''user'' = Some alice_text"
  using refreshAccessToken_writes_access_only [of
      "example_platform [answer 200 (JObj [(''tokens'', JObj [(''access_token'', JStr ''A2'')])])]"
      "browser [(''access_token'', ''A1''), (''refresh_token'', ''R1''), (''user'', alice_text)]"]
  by (simp add: example_platform_def browser_def scripted_def answer_def getRefreshToken_def
      ok_def accessToken_of_def js_get_opt_def getItem_def refreshAccessToken_def
      refreshAccessToken_try_def fetch_def localStorage_setItem_def)

text \<open>
  C9, as the code has it. Where there is no \<open>window\<close>, \<open>refreshAccessToken\<close> returns
  \<open>false\<close> at once, because the guarded \<open>getRefreshToken\<close> reads absent: no request is
  sent, the storage write is never reached and nothing is thrown or caught. (The write
  itself is unguarded and would throw there, where \<open>setTokens\<close> does nothing.)
\<close>

theorem refreshAccessToken_without_window:
  "localStorage w = None \<Longrightarrow>
     refreshAccessToken P w = (Inr False, w) \<and>
     localStorage_setItem ''access_token'' v w = (Inl ReferenceError, w) \<and>
     setTokens a r w = w"
  by (simp add: refreshAccessToken_def getRefreshToken_def localStorage_setItem_def
      setTokens_def)

theorem refreshAccessToken_without_window_witness:
  "localStorage server_side = None \<and>
   refreshAccessToken
     (example_platform [answer 200 (JObj [(''access_token'', JStr ''A2'')])]) server_side =
     (Inr False, server_side)"
  using refreshAccessToken_without_window [of server_side
      "example_platform [answer 200 (JObj [(''access_token'', JStr ''A2'')])]"]
  by (simp add: server_side_def)

text \<open>
  C9 as stated has the transport answer and the handler of \<open>refreshAccessToken\<close> catch
  the failed write. On the server side, with a transport ready to answer with a token,
  no request is sent and the handler, which logs whatever it catches, logs nothing.
\<close>

theorem refreshAccessToken_handler_counterexample:
  "sent (snd (refreshAccessToken
      (example_platform [answer 200 (JObj [(''access_token'', JStr ''A2'')])]) server_side)) = [] \<and>
   console (snd (refreshAccessToken
      (example_platform [answer 200 (JObj [(''access_token'', JStr ''A2'')])]) server_side)) = []"
  by (simp add: refreshAccessToken_def getRefreshToken_def server_side_def)

section \<open>deleteAccount\<close>

text \<open>
  C8. When the transport answers \<open>deleteAccount\<close> with a success, the call returns
  normally and all three slots are empty afterwards; when it answers with any other
  status, the call throws and the store is exactly as before.
\<close>

theorem deleteAccount_outcomes:
  "\<forall>response. transport P (sent w) (deleteAccount_request P w) = Inr response \<longrightarrow>
     (ok response \<longrightarrow>
        fst (deleteAccount P w) = Inr () \<and>
        getItem (snd (deleteAccount P w)) ''access_token'' = None \<and>
        getItem (snd (deleteAccount P w)) ''refresh_token'' = None \<and>
        getItem (snd (deleteAccount P w)) ''user'' = None) \<and>
     (\<not> ok response \<longrightarrow>
        fst (deleteAccount P w) = Inl (not_ok_error response ''Account deletion failed'') \<and>
        localStorage (snd (deleteAccount P w)) = localStorage w)"
  by (simp add: deleteAccount_def fetch_def getItem_clearTokens)

text \<open>Instances: a 204 over a full session, and a 403 over the same session.\<close>

theorem deleteAccount_outcomes_witness:
  "fst (deleteAccount (example_platform [answer 204 JNull])
          (browser [(''access_token'', ''A1''), (''refresh_token'', ''R1''),
                    (''user'', alice_text)])) = Inr () \<and>
   getItem (snd (deleteAccount (example_platform [answer 204 JNull])
          (browser [(''access_token'', ''A1''), (''refresh_token'', ''R1''),
                    (''user'', alice_text)]))) ''access_token'' = None \<and>
   fst (deleteAccount (example_platform [answer 403 (JObj [(''detail'', JStr ''Forbidden'')])])
          (browser [(''access_token'', ''A1''), (''refresh_token'', ''R1''),
                    (''user'', alice_text)])) = Inl (Error ''Forbidden'') \<and>
   localStorage (snd (deleteAccount
          (example_platform [answer 403 (JObj [(''detail'', JStr ''Forbidden'')])])
          (browser [(''access_token'', ''A1''), (''refresh_token'', ''R1''),
                    (''user'', alice_text)]))) =
     Some (map_of [(''access_token'', ''A1''), (''refresh_token'', ''R1''), (''user'', alice_text)])"
  using
    deleteAccount_outcomes [of "example_platform [answer 204 JNull]"
      "browser [(''access_token'', ''A1''), (''refresh_token'', ''R1''), (''user'', alice_text)]"]
    deleteAccount_outcomes [of
      "example_platform [answer 403 (JObj [(''detail'', JStr ''Forbidden'')])]"
      "browser [(''access_token'', ''A1''), (''refresh_token'', ''R1''), (''user'', alice_text)]"]
  by (simp add: example_platform_def browser_def scripted_def answer_def ok_def
      not_ok_error_def new_Error_def)

section \<open>getProfile\<close>

lemma getProfile_cycle:
  assumes "refresh_cycle_ok P w"
  shows "getProfile P w = getProfile P (refresh_cycle P w)"
proof -
  obtain r w1 where f: "fetch P (getProfile_request P w) w = (r, w1)"
    by (cases "fetch P (getProfile_request P w) w")
  with assms obtain response where r: "r = Inr response" and s: "status response = 401"
    and t: "fst (refreshAccessToken P w1) = Inr True"
    by (auto simp: refresh_cycle_ok_def split: sum.splits)
  from s have "\<not> ok response" by (simp add: ok_def)
  moreover obtain w2 where "refreshAccessToken P w1 = (Inr True, w2)"
    using t by (cases "refreshAccessToken P w1") simp
  ultimately show ?thesis
    using f r s by (subst getProfile.simps) (simp add: refresh_cycle_def)
qed

lemma getProfile_session_expired:
  assumes "refresh_cycle_fails P w"
  shows "getProfile P w = Some (Inl (Error ''Session expired''), refresh_cycle P w)"
proof -
  obtain r w1 where f: "fetch P (getProfile_request P w) w = (r, w1)"
    by (cases "fetch P (getProfile_request P w) w")
  with assms obtain response where r: "r = Inr response" and s: "status response = 401"
    and t: "fst (refreshAccessToken P w1) = Inr False"
    by (auto simp: refresh_cycle_fails_def split: sum.splits)
  from s have "\<not> ok response" by (simp add: ok_def)
  moreover obtain w2 where "refreshAccessToken P w1 = (Inr False, w2)"
    using t by (cases "refreshAccessToken P w1") simp
  ultimately show ?thesis
    using f r s by (subst getProfile.simps) (simp add: refresh_cycle_def)
qed

lemma getProfile_cycles:
  "refresh_cycles_ok n P w \<Longrightarrow> getProfile P w = getProfile P (iterate n (refresh_cycle P) w)"
proof (induction n arbitrary: w)
  case 0
  show ?case by simp
next
  case (Suc n)
  then have "refresh_cycle_ok P w" and "refresh_cycles_ok n P (refresh_cycle P w)"
    by simp_all
  then show ?case
    using Suc.IH [of "refresh_cycle P w"] by (simp add: getProfile_cycle)
qed

text \<open>
  C1, as the code has it. The retry after a successful refresh is a fresh call of
  \<open>getProfile\<close>: when the first \<open>n\<close> profile requests are each answered 401 and each
  refresh that follows succeeds, \<open>getProfile\<close> goes through all \<open>n\<close> cycles and behaves
  as a call from the world they leave, for every \<open>n\<close>. It throws \<open>Session expired\<close>
  when, after them, a 401 is followed by a refresh that fails.
\<close>

theorem getProfile_retries_every_cycle:
  assumes "refresh_cycles_ok n P w"
  shows "getProfile P w = getProfile P (iterate n (refresh_cycle P) w) \<and>
         (refresh_cycle_fails P (iterate n (refresh_cycle P) w) \<longrightarrow>
            getProfile P w =
              Some (Inl (Error ''Session expired''),
                    refresh_cycle P (iterate n (refresh_cycle P) w)))"
  using getProfile_cycles [OF assms] by (simp add: getProfile_session_expired)

lemma always_401_cycle:
  assumes "transport P = always_401" "getRefreshToken w = Some rt" "rt \<noteq> []"
  shows "refresh_cycle_ok P w \<and> getRefreshToken (refresh_cycle P w) = Some rt"
  using assms
  by (auto simp: refresh_cycle_ok_def refresh_cycle_def always_401_def answer_def refresh_defs getProfile_request_def
      split: option.splits)

lemma getProfile_always_401:
  assumes "getProfile P w = Some y"
  shows "\<not> (transport P = always_401 \<and> truthy_str (getRefreshToken w))"
proof -
  let ?Q = "\<lambda>(P, w) (y :: jsval outcome).
    \<not> (transport P = always_401 \<and> truthy_str (getRefreshToken w))"
  have "?Q (P, w) y"
  proof (rule getProfile.raw_induct [OF _ assms])
    fix g P w y
    assume IH: "\<And>P w y. g P w = Some y \<Longrightarrow> ?Q (P, w) y"
      and body:
        "(case fetch P (getProfile_request P w) w of
            (Inl e, w1) \<Rightarrow> Some (Inl e, w1)
          | (Inr response, w1) \<Rightarrow>
              if \<not> ok response then
                (if status response = 401 then
                   (case refreshAccessToken P w1 of
                      (Inl e, w2) \<Rightarrow> Some (Inl e, w2)
                    | (Inr refreshed, w2) \<Rightarrow>
                        if refreshed then g P w2
                        else Some (Inl (Error ''Session expired''), w2))
                 else Some (Inl (Error ''Failed to fetch profile''), w1))
              else
                (case json response of
                   Inl e \<Rightarrow> Some (Inl e, w1)
                 | Inr user \<Rightarrow> Some (Inr user, setUser P user w1))) = Some y"
    show "?Q (P, w) y"
    proof (clarify)
      assume tr: "transport P = always_401" and tok: "truthy_str (getRefreshToken w)"
      then obtain rt where rt: "getRefreshToken w = Some rt" "rt \<noteq> []"
        by (cases "getRefreshToken w") auto
      from tr rt have c: "refresh_cycle_ok P w" "getRefreshToken (refresh_cycle P w) = Some rt"
        using always_401_cycle [of P w rt] by simp_all
      obtain r w1 where f: "fetch P (getProfile_request P w) w = (r, w1)"
        by (cases "fetch P (getProfile_request P w) w")
      with c obtain response where r: "r = Inr response" and s: "status response = 401"
        and t: "fst (refreshAccessToken P w1) = Inr True"
        by (auto simp: refresh_cycle_ok_def split: sum.splits)
      from s have nok: "\<not> ok response" by (simp add: ok_def)
      obtain w2 where w2: "refreshAccessToken P w1 = (Inr True, w2)"
        using t by (cases "refreshAccessToken P w1") simp
      have "refresh_cycle P w = w2"
        using f w2 by (simp add: refresh_cycle_def)
      with body f r s nok w2 have "g P (refresh_cycle P w) = Some y"
        by simp
      from IH [OF this] tr c rt show False by simp
    qed
  qed
  then show ?thesis by simp
qed

lemma getProfile_two_cycles_result:
  "map_option fst (getProfile (example_platform two_cycles) session) = Some (Inr alice)"
  apply (subst getProfile.simps)
  apply (simp add: example_defs refresh_defs getProfile_request_def)
  apply (subst getProfile.simps)
  apply (simp add: example_defs refresh_defs getProfile_request_def)
  apply (subst getProfile.simps)
  apply (simp add: example_defs refresh_defs getProfile_request_def setUser_def)
  done

lemma getProfile_two_cycles_requests:
  "map_option (map url \<circ> sent \<circ> snd) (getProfile (example_platform two_cycles) session) =
     Some [''http://localhost:9000/api/profile/'', ''http://localhost:9000/api/token/refresh/'',
           ''http://localhost:9000/api/profile/'', ''http://localhost:9000/api/token/refresh/'',
           ''http://localhost:9000/api/profile/'']"
  apply (subst getProfile.simps)
  apply (simp add: example_defs refresh_defs getProfile_request_def)
  apply (subst getProfile.simps)
  apply (simp add: example_defs refresh_defs getProfile_request_def)
  apply (subst getProfile.simps)
  apply (simp add: example_defs refresh_defs getProfile_request_def setUser_def)
  done

lemma getProfile_never_settles:
  "getProfile (example_platform [] \<lparr>transport := always_401\<rparr>) session = None"
proof (cases "getProfile (example_platform [] \<lparr>transport := always_401\<rparr>) session")
  case None
  then show ?thesis .
next
  case (Some y)
  from getProfile_always_401 [OF this] show ?thesis
    by (simp add: session_def browser_def getRefreshToken_def)
qed

text \<open>
  An instance with two cycles: both cycles of the script succeed, so the call is the
  call from the world after them.
\<close>

theorem getProfile_retries_every_cycle_witness:
  "refresh_cycles_ok 2 (example_platform two_cycles) session \<and>
   getProfile (example_platform two_cycles) session =
     getProfile (example_platform two_cycles)
       (iterate 2 (refresh_cycle (example_platform two_cycles)) session)"
proof -
  have ok: "refresh_cycles_ok 2 (example_platform two_cycles) session"
    by (simp add: numeral_2_eq_2 refresh_cycle_ok_def refresh_cycle_def example_defs
        refresh_defs getProfile_request_def)
  from getProfile_retries_every_cycle [OF ok] ok show ?thesis by simp
qed

text \<open>
  C1 as stated has the second 401 after a successful refresh fail with
  \<open>Session expired\<close> and start no further cycle. With the script of two cycles the
  second 401 starts a second refresh and a second retry (five requests in all), and the
  call returns the profile; and with a transport that answers every profile request
  with 401 and every refresh with a token, the call never settles.
\<close>

theorem getProfile_second_401_counterexample:
  "map_option fst (getProfile (example_platform two_cycles) session) = Some (Inr alice) \<and>
   map_option (map url \<circ> sent \<circ> snd) (getProfile (example_platform two_cycles) session) =
     Some [''http://localhost:9000/api/profile/'', ''http://localhost:9000/api/token/refresh/'',
           ''http://localhost:9000/api/profile/'', ''http://localhost:9000/api/token/refresh/'',
           ''http://localhost:9000/api/profile/''] \<and>
   getProfile (example_platform [] \<lparr>transport := always_401\<rparr>) session = None"
  using getProfile_two_cycles_result getProfile_two_cycles_requests getProfile_never_settles
  by simp

section \<open>login\<close>

lemma login_success:
  assumes "transport P (sent w) (login_request P username password w) = Inr response"
    and "ok response" "json response = Inr data"
    and "js_get data ''tokens'' = Inr tokens"
    and "js_get tokens ''access'' = Inr access" "js_get tokens ''refresh'' = Inr refresh"
    and "js_get data ''user'' = Inr user"
  shows "login P username password w =
           (Inr data,
            setUser P user (setTokens access refresh
              (w\<lparr>sent := sent w @ [login_request P username password w]\<rparr>)))"
  using assms by (simp add: login_def fetch_def)

text \<open>
  C5, as the code has it. In a browser, when the transport answers \<open>login\<close> with a
  success whose body carries tokens and an identity, \<open>login\<close> returns the body, and
  afterwards the store holds the body's access token, refresh token and identity and no
  other key has changed; reading the identity back gives the identity of the body,
  granted that \<open>JSON.parse\<close> reads back what \<open>JSON.stringify\<close> made of it.
\<close>

theorem login_persists_session:
  assumes "localStorage w = Some st"
    and "transport P (sent w) (login_request P username password w) = Inr response"
    and "ok response" "json response = Inr data"
    and "js_get data ''tokens'' = Inr tokens"
    and "js_get tokens ''access'' = Inr access" "js_get tokens ''refresh'' = Inr refresh"
    and "js_get data ''user'' = Inr user" "user \<noteq> JUndefined"
    and "stringify P user \<noteq> []" "parse P (stringify P user) = Inr user"
  shows "fst (login P username password w) = Inr data \<and>
         getAccessToken (snd (login P username password w)) = Some (js_String access) \<and>
         getRefreshToken (snd (login P username password w)) = Some (js_String refresh) \<and>
         getItem (snd (login P username password w)) ''user'' = Some (stringify P user) \<and>
         getUser P (snd (login P username password w)) = Inr user \<and>
         (\<forall>key. key \<noteq> ''access_token'' \<and> key \<noteq> ''refresh_token'' \<and> key \<noteq> ''user'' \<longrightarrow>
            getItem (snd (login P username password w)) key = getItem w key)"
proof -
  let ?w1 = "w\<lparr>sent := sent w @ [login_request P username password w]\<rparr>"
  let ?w2 = "setTokens access refresh ?w1"
  have l: "login P username password w = (Inr data, setUser P user ?w2)"
    using assms by (simp add: login_success)
  have s1: "localStorage ?w1 = Some st"
    using assms(1) by simp
  obtain st2 where s2: "localStorage ?w2 = Some st2"
    using s1 by (simp add: setTokens_def)
  have items: "getItem (setUser P user ?w2) key =
      (if key = ''user'' then Some (stringify P user)
       else if key = ''refresh_token'' then Some (js_String refresh)
       else if key = ''access_token'' then Some (js_String access) else getItem w key)" for key
    using \<open>user \<noteq> JUndefined\<close>
    by (simp add: getItem_setUser [OF s2] getItem_setTokens [OF s1])
  show ?thesis
    using assms(10,11)
    by (simp add: l items getUser_getItem getAccessToken_getItem getRefreshToken_getItem)
qed

text \<open>The scenario of the specification: alice logs in and gets \<open>A1\<close> and \<open>R1\<close>.\<close>

theorem login_persists_session_witness:
  "fst (login (example_platform login_ok) ''alice'' ''pw'' (browser [])) =
     Inr (JObj [(''message'', JStr ''ok''), (''user'', alice),
                (''tokens'', JObj [(''access'', JStr ''A1''), (''refresh'', JStr ''R1'')])]) \<and>
   getAccessToken (snd (login (example_platform login_ok) ''alice'' ''pw'' (browser []))) =
     Some ''A1'' \<and>
   getRefreshToken (snd (login (example_platform login_ok) ''alice'' ''pw'' (browser []))) =
     Some ''R1'' \<and>
   getUser (example_platform login_ok)
     (snd (login (example_platform login_ok) ''alice'' ''pw'' (browser []))) = Inr alice"
  using login_persists_session [of "browser []" Map.empty "example_platform login_ok"
      "''alice''" "''pw''"
      "\<lparr> status = 200, json = Inr (JObj [(''message'', JStr ''ok''), (''user'', alice),
          (''tokens'', JObj [(''access'', JStr ''A1''), (''refresh'', JStr ''R1'')])]) \<rparr>"
      "JObj [(''message'', JStr ''ok''), (''user'', alice),
          (''tokens'', JObj [(''access'', JStr ''A1''), (''refresh'', JStr ''R1'')])]"
      "JObj [(''access'', JStr ''A1''), (''refresh'', JStr ''R1'')]"
      "JStr ''A1''" "JStr ''R1''" alice]
  by (simp add: example_defs login_ok_def alice_def alice_text_def example_stringify_def
      example_parse_def ok_def)

text \<open>
  C5 as stated covers every login the transport accepts. Where there is no \<open>window\<close>
  the same login returns the same body, and the store holds none of it: the setters
  return at their guard.
\<close>

theorem login_server_side_counterexample:
  "fst (login (example_platform login_ok) ''alice'' ''pw'' server_side) =
     Inr (JObj [(''message'', JStr ''ok''), (''user'', alice),
                (''tokens'', JObj [(''access'', JStr ''A1''), (''refresh'', JStr ''R1'')])]) \<and>
   getAccessToken (snd (login (example_platform login_ok) ''alice'' ''pw'' server_side)) = None \<and>
   getRefreshToken (snd (login (example_platform login_ok) ''alice'' ''pw'' server_side)) = None \<and>
   getUser (example_platform login_ok)
     (snd (login (example_platform login_ok) ''alice'' ''pw'' server_side)) = Inr JNull"
  by (simp add: example_defs login_ok_def login_def fetch_def ok_def alice_def setTokens_def setUser_def
      getAccessToken_def getRefreshToken_def getUser_def)

section \<open>register\<close>

lemma register_tokens_absent:
  assumes "transport P (sent w)
             (register_request P username email password password2 first_name last_name w) =
           Inr response"
    and "ok response" "json response = Inr data"
    and "js_get data ''tokens'' = Inr tokens" "\<not> truthy tokens"
  shows "register P username email password password2 first_name last_name w =
           (Inr data,
            w\<lparr>sent := sent w @
              [register_request P username email password password2 first_name last_name w]\<rparr>)"
  using assms by (simp add: register_def fetch_def)

lemma register_tokens_present:
  assumes "transport P (sent w)
             (register_request P username email password password2 first_name last_name w) =
           Inr response"
    and "ok response" "json response = Inr data"
    and "js_get data ''tokens'' = Inr tokens" "truthy tokens"
  shows "register P username email password password2 first_name last_name w =
           (Inr data,
            setUser P (js_get_opt data ''user'')
              (setTokens (js_get_opt tokens ''access_token'') (js_get_opt tokens ''refresh_token'')
                 (w\<lparr>sent := sent w @
                   [register_request P username email password password2 first_name last_name
                      w]\<rparr>)))"
proof -
  from \<open>truthy tokens\<close> have "tokens \<noteq> JNull" "tokens \<noteq> JUndefined" by auto
  then have ar: "js_get tokens name = Inr (js_get_opt tokens name)" for name
    by (rule js_get_defined)
  from assms(4) have "data \<noteq> JNull" "data \<noteq> JUndefined" by auto
  then have u: "js_get data ''user'' = Inr (js_get_opt data ''user'')"
    by (rule js_get_defined)
  show ?thesis
    using assms by (simp add: register_def fetch_def ar u)
qed

text \<open>
  C4, as the code has it. A successful registration returns the body as it came. When
  the body has no \<open>tokens\<close> field (or a falsy one), the store is left exactly as it was,
  so \<open>isAuthenticated\<close> answers as before. When it has one, then in a browser the
  store afterwards holds the two tokens of the field and the identity of the body.
\<close>

theorem register_outcomes:
  assumes "transport P (sent w)
             (register_request P username email password password2 first_name last_name w) =
           Inr response"
    and "ok response" "json response = Inr data" "js_get data ''tokens'' = Inr tokens"
  shows "fst (register P username email password password2 first_name last_name w) = Inr data \<and>
         (\<not> truthy tokens \<longrightarrow>
            localStorage (snd (register P username email password password2 first_name last_name w))
              = localStorage w \<and>
            isAuthenticated (snd (register P username email password password2 first_name last_name w))
              = isAuthenticated w) \<and>
         (truthy tokens \<and> localStorage w \<noteq> None \<longrightarrow>
            getAccessToken (snd (register P username email password password2 first_name last_name w))
              = Some (js_String (js_get_opt tokens ''access_token'')) \<and>
            getRefreshToken (snd (register P username email password password2 first_name last_name w))
              = Some (js_String (js_get_opt tokens ''refresh_token'')) \<and>
            getItem (snd (register P username email password password2 first_name last_name w)) ''user''
              = Some (if js_get_opt data ''user'' = JUndefined then ''undefined''
                      else stringify P (js_get_opt data ''user'')))"
proof (cases "truthy tokens")
  case False
  with register_tokens_absent [OF assms(1-4)] show ?thesis
    by (simp add: isAuthenticated_def getAccessToken_def)
next
  case True
  let ?w1 = "w\<lparr>sent := sent w @
     [register_request P username email password password2 first_name last_name w]\<rparr>"
  let ?w2 = "setTokens (js_get_opt tokens ''access_token'') (js_get_opt tokens ''refresh_token'') ?w1"
  note r = register_tokens_present [OF assms(1-4) True]
  show ?thesis
  proof (cases "localStorage w")
    case None
    with True r show ?thesis by simp
  next
    case (Some st)
    then have s1: "localStorage ?w1 = Some st" by simp
    then obtain st2 where s2: "localStorage ?w2 = Some st2"
      by (simp add: setTokens_def)
    show ?thesis
      using True Some
      by (simp add: r getItem_setUser [OF s2] getItem_setTokens [OF s1]
          getAccessToken_getItem getRefreshToken_getItem)
  qed
qed

text \<open>
  Instances: a registration pending verification, and one answered with tokens, both
  in a browser with an empty store.
\<close>

theorem register_outcomes_witness:
  "fst (register (example_platform register_pending) ''alice'' ''alice@example.com'' ''pw'' ''pw''
          None None (browser [])) =
     Inr (JObj [(''message'', JStr ''verify''), (''user'', alice)]) \<and>
   localStorage (snd (register (example_platform register_pending) ''alice'' ''alice@example.com''
          ''pw'' ''pw'' None None (browser []))) = localStorage (browser []) \<and>
   isAuthenticated (snd (register (example_platform register_pending) ''alice''
          ''alice@example.com'' ''pw'' ''pw'' None None (browser []))) = False \<and>
   getAccessToken (snd (register (example_platform register_with_tokens) ''alice''
          ''alice@example.com'' ''pw'' ''pw'' None None (browser []))) = Some ''A1'' \<and>
   getRefreshToken (snd (register (example_platform register_with_tokens) ''alice''
          ''alice@example.com'' ''pw'' ''pw'' None None (browser []))) = Some ''R1'' \<and>
   getItem (snd (register (example_platform register_with_tokens) ''alice''
          ''alice@example.com'' ''pw'' ''pw'' None None (browser []))) ''user'' = Some alice_text"
  using
    register_outcomes [of "example_platform register_pending" "browser []"
      "''alice''" "''alice@example.com''" "''pw''" "''pw''" None None
      "\<lparr> status = 201, json = Inr (JObj [(''message'', JStr ''verify''), (''user'', alice)]) \<rparr>"
      "JObj [(''message'', JStr ''verify''), (''user'', alice)]" JUndefined]
    register_outcomes [of "example_platform register_with_tokens" "browser []"
      "''alice''" "''alice@example.com''" "''pw''" "''pw''" None None
      "\<lparr> status = 201, json = Inr (JObj [(''message'', JStr ''ok''), (''user'', alice),
          (''tokens'', JObj [(''access_token'', JStr ''A1''), (''refresh_token'', JStr ''R1''),
                             (''token_type'', JStr ''bearer'')])]) \<rparr>"
      "JObj [(''message'', JStr ''ok''), (''user'', alice),
          (''tokens'', JObj [(''access_token'', JStr ''A1''), (''refresh_token'', JStr ''R1''),
                             (''token_type'', JStr ''bearer'')])]"
      "JObj [(''access_token'', JStr ''A1''), (''refresh_token'', JStr ''R1''),
             (''token_type'', JStr ''bearer'')]"]
  by (simp add: example_defs register_with_tokens_def register_pending_def ok_def
      js_get_opt_def isAuthenticated_def getAccessToken_def example_stringify_def alice_def)

text \<open>
  C4 as stated has the tokens and the identity persisted whenever the body contains
  tokens. Where there is no \<open>window\<close> the answer with tokens is returned and nothing is
  persisted.
\<close>

theorem register_server_side_counterexample:
  "fst (register (example_platform register_with_tokens) ''alice'' ''alice@example.com'' ''pw''
          ''pw'' None None server_side) =
     Inr (JObj [(''message'', JStr ''ok''), (''user'', alice),
          (''tokens'', JObj [(''access_token'', JStr ''A1''), (''refresh_token'', JStr ''R1''),
                             (''token_type'', JStr ''bearer'')])]) \<and>
   getAccessToken (snd (register (example_platform register_with_tokens) ''alice''
          ''alice@example.com'' ''pw'' ''pw'' None None server_side)) = None \<and>
   getRefreshToken (snd (register (example_platform register_with_tokens) ''alice''
          ''alice@example.com'' ''pw'' ''pw'' None None server_side)) = None \<and>
   getItem (snd (register (example_platform register_with_tokens) ''alice''
          ''alice@example.com'' ''pw'' ''pw'' None None server_side)) ''user'' = None"
  by (simp add: example_defs register_with_tokens_def register_def fetch_def ok_def alice_def
      setTokens_def setUser_def getAccessToken_def getRefreshToken_def getItem_def)

section \<open>The two shapes of a refresh body\<close>

lemma accessToken_of_shape_direct:
  "shape_direct data v \<Longrightarrow>
   accessToken_of data = Inr (if truthy v then v else JUndefined)"
  by (cases data) (auto simp: shape_direct_def accessToken_of_def js_get_opt_def)

lemma accessToken_of_shape_nested:
  "shape_nested data v \<Longrightarrow> accessToken_of data = Inr v"
  by (cases data)
    (auto simp: shape_nested_def accessToken_of_def js_get_opt_def
      split: option.splits jsval.splits)

lemma refreshAccessToken_by_token:
  assumes "getRefreshToken w = Some rt" "rt \<noteq> []"
    and "transport P (sent w) (refreshAccessToken_request P rt w) = Inr response"
    and "ok response" "json response = Inr data" "accessToken_of data = Inr x"
  shows "refreshAccessToken P w =
           (if truthy x then
              (Inr True,
               w\<lparr>sent := sent w @ [refreshAccessToken_request P rt w],
                 localStorage :=
                   map_option (\<lambda>st. st(''access_token'' \<mapsto> js_String x)) (localStorage w)\<rparr>)
            else (Inr False, w\<lparr>sent := sent w @ [refreshAccessToken_request P rt w]\<rparr>))"
  using assms
  by (auto simp: refreshAccessToken_def refreshAccessToken_try_def fetch_def
      getRefreshToken_def localStorage_setItem_def split: option.splits)

text \<open>
  C6. Two success responses to the same refresh request, one carrying a value as
  \<open>access_token\<close> and the other carrying the same value as \<open>tokens.access_token\<close>: from
  each of them the value itself is extracted when it is truthy, and nothing otherwise.
  The two executions give the same return value, which is \<open>true\<close> exactly when the value
  is truthy (and the stored refresh token is not empty), and the same world; when they
  return \<open>true\<close>, the access-token slot holds that value in both.
\<close>

theorem refreshAccessToken_shapes_agree:
  assumes "getRefreshToken w = Some rt"
    and "transport P (sent w) (refreshAccessToken_request P rt w) = Inr response1"
    and "transport' (sent w) (refreshAccessToken_request P rt w) = Inr response2"
    and "ok response1" "json response1 = Inr data1" "shape_direct data1 v"
    and "ok response2" "json response2 = Inr data2" "shape_nested data2 v"
  shows "extracted_accessToken response1 = (if truthy v then Some v else None) \<and>
         extracted_accessToken response2 = (if truthy v then Some v else None) \<and>
         extracted_accessToken response2 = extracted_accessToken response1 \<and>
         refreshAccessToken (P\<lparr>transport := transport'\<rparr>) w = refreshAccessToken P w \<and>
         fst (refreshAccessToken P w) = Inr (rt \<noteq> [] \<and> truthy v) \<and>
         fst (refreshAccessToken (P\<lparr>transport := transport'\<rparr>) w) = Inr (rt \<noteq> [] \<and> truthy v) \<and>
         (rt \<noteq> [] \<and> truthy v \<longrightarrow>
            getItem (snd (refreshAccessToken P w)) ''access_token'' = Some (js_String v) \<and>
            getItem (snd (refreshAccessToken (P\<lparr>transport := transport'\<rparr>) w)) ''access_token'' =
              Some (js_String v))"
proof -
  note d = accessToken_of_shape_direct [OF assms(6)]
  note n = accessToken_of_shape_nested [OF assms(9)]
  have e1: "extracted_accessToken response1 = (if truthy v then Some v else None)"
    using assms(5) by (simp add: extracted_accessToken_def d)
  have e2: "extracted_accessToken response2 = (if truthy v then Some v else None)"
    using assms(8) by (simp add: extracted_accessToken_def n)
  have q: "refreshAccessToken_request (P\<lparr>transport := transport'\<rparr>) rt w =
           refreshAccessToken_request P rt w"
    by (simp add: refreshAccessToken_request_def)
  obtain st where st: "localStorage w = Some st"
    using assms(1) by (cases "localStorage w") (simp_all add: getRefreshToken_def)
  show ?thesis
  proof (cases "rt = []")
    case True
    with assms(1) e1 e2 show ?thesis by (simp add: refreshAccessToken_def)
  next
    case False
    have t: "transport (P\<lparr>transport := transport'\<rparr>) (sent w)
               (refreshAccessToken_request (P\<lparr>transport := transport'\<rparr>) rt w) = Inr response2"
      using assms(3) by (simp add: q)
    show ?thesis
      using refreshAccessToken_by_token [OF assms(1) False t assms(7,8) n]
        refreshAccessToken_by_token [OF assms(1) False assms(2,4,5) d] e1 e2 False st
      by (simp add: q getItem_def)
  qed
qed

text \<open>An instance: the token \<open>A2\<close> in either shape, over a session.\<close>

theorem refreshAccessToken_shapes_agree_witness:
  "shape_direct (JObj [(''access_token'', JStr ''A2'')]) (JStr ''A2'') \<and>
   shape_nested (JObj [(''tokens'', JObj [(''access_token'', JStr ''A2'')])]) (JStr ''A2'') \<and>
   refreshAccessToken
     (example_platform [answer 200 (JObj [(''access_token'', JStr ''A2'')])]
        \<lparr>transport := scripted [answer 200 (JObj [(''tokens'', JObj [(''access_token'', JStr ''A2'')])])]\<rparr>)
     session =
   refreshAccessToken (example_platform [answer 200 (JObj [(''access_token'', JStr ''A2'')])])
     session \<and>
   fst (refreshAccessToken (example_platform [answer 200 (JObj [(''access_token'', JStr ''A2'')])])
     session) = Inr True \<and>
   getItem (snd (refreshAccessToken
     (example_platform [answer 200 (JObj [(''access_token'', JStr ''A2'')])]) session))
     ''access_token'' = Some ''A2'' \<and>
   getItem (snd (refreshAccessToken
     (example_platform [answer 200 (JObj [(''access_token'', JStr ''A2'')])]
        \<lparr>transport := scripted [answer 200 (JObj [(''tokens'', JObj [(''access_token'', JStr ''A2'')])])]\<rparr>)
     session)) ''access_token'' = Some ''A2''"
proof -
  let ?P = "example_platform [answer 200 (JObj [(''access_token'', JStr ''A2'')])]"
  let ?tr = "scripted [answer 200 (JObj [(''tokens'', JObj [(''access_token'', JStr ''A2'')])])]"
  have d: "shape_direct (JObj [(''access_token'', JStr ''A2'')]) (JStr ''A2'')"
    by (simp add: shape_direct_def)
  have n: "shape_nested (JObj [(''tokens'', JObj [(''access_token'', JStr ''A2'')])]) (JStr ''A2'')"
    by (simp add: shape_nested_def)
  have r: "getRefreshToken session = Some ''R1''"
    by (simp add: example_defs getRefreshToken_def)
  have t1: "transport ?P (sent session) (refreshAccessToken_request ?P ''R1'' session) =
      Inr \<lparr> status = 200, json = Inr (JObj [(''access_token'', JStr ''A2'')]) \<rparr>"
    by (simp add: example_defs)
  have t2: "?tr (sent session) (refreshAccessToken_request ?P ''R1'' session) =
      Inr \<lparr> status = 200,
            json = Inr (JObj [(''tokens'', JObj [(''access_token'', JStr ''A2'')])]) \<rparr>"
    by (simp add: example_defs)
  have o1: "ok \<lparr> status = 200, json = Inr (JObj [(''access_token'', JStr ''A2'')]) \<rparr>"
    by (simp add: ok_def)
  have o2: "ok \<lparr> status = 200,
      json = Inr (JObj [(''tokens'', JObj [(''access_token'', JStr ''A2'')])]) \<rparr>"
    by (simp add: ok_def)
  have j1: "json \<lparr> status = 200, json = Inr (JObj [(''access_token'', JStr ''A2'')]) \<rparr> =
      Inr (JObj [(''access_token'', JStr ''A2'')])"
    by simp
  have j2: "json \<lparr> status = 200,
      json = Inr (JObj [(''tokens'', JObj [(''access_token'', JStr ''A2'')])]) \<rparr> =
      Inr (JObj [(''tokens'', JObj [(''access_token'', JStr ''A2'')])])"
    by simp
  from refreshAccessToken_shapes_agree [where transport' = ?tr, OF r t1 t2 o1 j1 d o2 j2 n] d n
  show ?thesis by simp
qed

section \<open>getUser\<close>

text \<open>
  C10, as the code has it. When the identity slot holds a non-empty text that
  \<open>JSON.parse\<close> rejects, \<open>getUser\<close> throws the parser's error. It returns \<open>null\<close>
  exactly when there is no \<open>window\<close>, when the slot has no entry or holds the empty
  text, or when the stored text parses to \<open>null\<close>.
\<close>

theorem getUser_outcomes:
  "(\<forall>s e. getItem w ''user'' = Some s \<and> s \<noteq> [] \<and> parse P s = Inl e \<longrightarrow> getUser P w = Inl e) \<and>
   (getUser P w = Inr JNull \<longleftrightarrow>
      localStorage w = None \<or> getItem w ''user'' = None \<or> getItem w ''user'' = Some [] \<or>
      (\<exists>s. getItem w ''user'' = Some s \<and> parse P s = Inr JNull))"
  by (auto simp: getUser_getItem getItem_def split: option.splits)

text \<open>
  Instances: a malformed text, an empty store, no \<open>window\<close>, and a stored identity.
\<close>

theorem getUser_outcomes_witness:
  "getUser (example_platform []) (browser [(''user'', ''not json'')]) = Inl SyntaxError \<and>
   getUser (example_platform []) (browser []) = Inr JNull \<and>
   getUser (example_platform []) server_side = Inr JNull \<and>
   getUser (example_platform []) (browser [(''user'', alice_text)]) = Inr alice"
  using getUser_outcomes [of "browser [(''user'', ''not json'')]" "example_platform []"]
    getUser_outcomes [of "browser []" "example_platform []"]
    getUser_outcomes [of server_side "example_platform []"]
  by (simp add: example_defs getItem_def getUser_def example_parse_def alice_text_def)

text \<open>
  C10 as stated has \<open>getUser\<close> return absent only for an empty slot or a missing
  medium. A slot holding the text \<open>null\<close>, in a browser, is neither, and \<open>getUser\<close> returns
  \<open>null\<close>.
\<close>

theorem getUser_null_text_counterexample:
  "getUser (example_platform []) (browser [(''user'', ''null'')]) = Inr JNull \<and>
   getItem (browser [(''user'', ''null'')]) ''user'' = Some ''null'' \<and>
   localStorage (browser [(''user'', ''null'')]) \<noteq> None"
  by (simp add: example_defs getItem_def getUser_def example_parse_def alice_text_def)

end
